theory Spec2Isabelle
  imports Main "HOL-Library.Sublist" "HOL-Library.Word"
begin

section \<open>Text helpers of the Python runtime used by \<open>vm.py\<close>\<close>

text \<open>
  Python's \<open>str\<close> is modelled as \<open>string\<close>; a \<open>char\<close> stands for the code point of the
  same number, so the model covers text whose code points are below 256.
  \<open>str.strip()\<close> without arguments removes leading and trailing characters for which
  \<open>str.isspace\<close> holds; below 256 these are 9..13, 28..32, 133 and 160.
  \<open>str.lower()\<close> maps A..Z and the Latin-1 capitals 192..222 (without the
  multiplication sign 215) to the code point 32 above, and nothing else below 256.
\<close>

definition is_space :: "char \<Rightarrow> bool" where
  "is_space c =
     (let n = (of_char c :: nat)
      in (9 \<le> n \<and> n \<le> 13) \<or> (28 \<le> n \<and> n \<le> 32) \<or> n = 133 \<or> n = 160)"

definition strip :: "string \<Rightarrow> string" where
  "strip s = rev (dropWhile is_space (rev (dropWhile is_space s)))"

definition lower_char :: "char \<Rightarrow> char" where
  "lower_char c =
     (let n = (of_char c :: nat)
      in if 65 \<le> n \<and> n \<le> 90 then char_of (n + 32)
         else if 192 \<le> n \<and> n \<le> 214 then char_of (n + 32)
         else if 216 \<le> n \<and> n \<le> 222 then char_of (n + 32)
         else c)"

definition lower :: "string \<Rightarrow> string" where
  "lower s = map lower_char s"

text \<open>
  Formatting an \<open>int\<close> in an f-string: decimal digits, with a leading minus sign for a
  negative number.
\<close>

fun str_nat :: "nat \<Rightarrow> string" where
  "str_nat n =
     (if n < 10 then [char_of (48 + n)]
      else str_nat (n div 10) @ [char_of (48 + n mod 10)])"

declare str_nat.simps [simp del]

definition str_int :: "int \<Rightarrow> string" where
  "str_int i = (if i < 0 then CHR ''-'' # str_nat (nat (- i)) else str_nat (nat i))"

text \<open>
  \<open>shlex.quote\<close>: the empty string becomes two single quotes; a string made only of
  ASCII letters, digits and the characters \<open>_@%+=:,./-\<close> is returned as it is; any
  other string is wrapped in single quotes, each single quote inside it replaced by
  the five characters \<open>'"'"'\<close>.
\<close>

definition safe_char :: "char \<Rightarrow> bool" where
  "safe_char c =
     (let n = (of_char c :: nat)
      in (48 \<le> n \<and> n \<le> 57) \<or> (65 \<le> n \<and> n \<le> 90) \<or> (97 \<le> n \<and> n \<le> 122)
         \<or> List.member ''_@%+=:,./-'' c)"

definition quote :: "string \<Rightarrow> string" where
  "quote s =
     (if s = [] then [CHR 0x27, CHR 0x27]
      else if list_all safe_char s then s
      else [CHR 0x27]
           @ concat (map (\<lambda>c. if c = CHR 0x27
                               then [CHR 0x27, CHR 0x22, CHR 0x27, CHR 0x22, CHR 0x27]
                               else [c]) s)
           @ [CHR 0x27])"

section \<open>Exceptions\<close>

text \<open>
  \<open>VMError\<close> is the module's own exception class and carries its message. Every
  exception of another class (raised by paramiko, subprocess, socket or the codecs)
  is \<open>Foreign\<close>, with the name of its class; the module never catches one.
\<close>

datatype exn = VMError string | Foreign string

section \<open>The local hypervisor command line\<close>

text \<open>
  One call of \<open>subprocess.run\<close> with \<open>capture_output=True, text=True\<close> either completes
  with a return code and the captured stdout and stderr text, or raises
  (\<open>TimeoutExpired\<close>, \<open>FileNotFoundError\<close>, ...). The local machine is a function from
  the argument vector and the timeout to that outcome.
\<close>

datatype proc_outcome = Completed int string string | ProcRaised string

type_synonym local_cli = "string list \<Rightarrow> nat \<Rightarrow> proc_outcome"

definition get_ip :: "local_cli \<Rightarrow> string \<Rightarrow> exn + string" where
  "get_ip sub vm_name =
     (case sub [''utmctl'', ''ip-address'', vm_name] 10 of
        ProcRaised e \<Rightarrow> Inl (Foreign e)
      | Completed returncode out err \<Rightarrow>
          if returncode \<noteq> 0 then Inl (VMError (''Failed to get VM IP: '' @ err))
          else Inr (strip out))"

text \<open>
  \<open>start\<close> passes \<open>check=True\<close>, so a non-zero return code raises
  \<open>CalledProcessError\<close>; the output is not captured.
\<close>

definition start :: "local_cli \<Rightarrow> string \<Rightarrow> exn + unit" where
  "start sub vm_name =
     (case sub [''utmctl'', ''start'', vm_name] 30 of
        ProcRaised e \<Rightarrow> Inl (Foreign e)
      | Completed returncode out err \<Rightarrow>
          if returncode \<noteq> 0 then Inl (Foreign ''CalledProcessError'') else Inr ())"

definition is_running :: "local_cli \<Rightarrow> string \<Rightarrow> exn + bool" where
  "is_running sub vm_name =
     (case sub [''utmctl'', ''status'', vm_name] 10 of
        ProcRaised e \<Rightarrow> Inl (Foreign e)
      | Completed returncode out err \<Rightarrow> Inr (sublist ''started'' (lower out)))"

section \<open>The controller and its SSH session\<close>

text \<open>
  A paramiko client object: \<open>SSHClient False\<close> is the object as constructed,
  \<open>SSHClient True\<close> the object after its \<open>connect\<close> call has returned. The field
  \<open>ssh\<close> of the controller is \<open>None\<close> or holds such an object; an object is always
  truthy, so \<open>if self.ssh\<close> and \<open>if not self.ssh\<close> test the field against \<open>None\<close>.
\<close>

datatype ssh_client = SSHClient bool

record vm =
  name :: string
  ssh_host :: string
  ssh_user :: string
  ssh_key :: string
  ssh :: "ssh_client option"

text \<open>
  The constructor stores its arguments, the key path expanded by
  \<open>Path.expanduser\<close> (a function of the process environment, here \<open>expanduser\<close>).
\<close>

definition init :: "(string \<Rightarrow> string) \<Rightarrow> string \<Rightarrow> string \<Rightarrow> string \<Rightarrow> string \<Rightarrow> vm" where
  "init expanduser nm host user key =
     \<lparr>name = nm, ssh_host = host, ssh_user = user, ssh_key = expanduser key, ssh = None\<rparr>"

text \<open>
  What the session does is recorded as a trace of events: each call of
  \<open>exec_command\<close> with its command string and timeout, and each \<open>close\<close> of a client.

  The remote side is a function \<open>remote\<close>: given the trace so far, the client object,
  the command and the timeout, one exchange (\<open>exec_command\<close>, \<open>recv_exit_status\<close>,
  \<open>read\<close>, \<open>decode\<close>) either ends with an exit status and the decoded stdout and
  stderr text, or raises an exception of a class other than \<open>VMError\<close>
  (\<open>SSHException\<close>, \<open>socket.timeout\<close>, \<open>AttributeError\<close> on a client without
  transport, \<open>UnicodeDecodeError\<close>).
\<close>

datatype event = Exec string nat | Close ssh_client

datatype exec_outcome = Exited int string string | ExecRaised string

type_synonym remote = "event list \<Rightarrow> ssh_client \<Rightarrow> string \<Rightarrow> nat \<Rightarrow> exec_outcome"

text \<open>
  The connection attempt: the three calls after the assignment of the fresh client
  (\<open>load_system_host_keys\<close>, \<open>set_missing_host_key_policy\<close>, \<open>connect\<close> with host name,
  user name, key file and timeout 10) either all return or one of them raises.
\<close>

datatype conn_outcome = Established | ConnRaised string

type_synonym network = "string \<Rightarrow> string \<Rightarrow> string \<Rightarrow> nat \<Rightarrow> conn_outcome"

definition connect :: "network \<Rightarrow> vm \<Rightarrow> (exn + unit) \<times> vm" where
  "connect net v =
     (let v1 = v\<lparr>ssh := Some (SSHClient False)\<rparr>
      in case net (ssh_host v1) (ssh_user v1) (ssh_key v1) 10 of
           ConnRaised e \<Rightarrow> (Inl (Foreign e), v1)
         | Established \<Rightarrow> (Inr (), v1\<lparr>ssh := Some (SSHClient True)\<rparr>))"

definition disconnect :: "vm \<times> event list \<Rightarrow> vm \<times> event list" where
  "disconnect s =
     (case s of (v, tr) \<Rightarrow>
        (case ssh v of
           None \<Rightarrow> (v, tr)
         | Some c \<Rightarrow> (v\<lparr>ssh := None\<rparr>, tr @ [Close c])))"

definition run :: "remote \<Rightarrow> vm \<Rightarrow> string \<Rightarrow> nat \<Rightarrow> event list \<Rightarrow> (exn + string) \<times> event list" where
  "run w v cmd timeout tr =
     (case ssh v of
        None \<Rightarrow> (Inl (VMError ''Not connected''), tr)
      | Some c \<Rightarrow>
          (case w tr c cmd timeout of
             ExecRaised e \<Rightarrow> (Inl (Foreign e), tr @ [Exec cmd timeout])
           | Exited exit_code out err \<Rightarrow>
               if exit_code \<noteq> 0
               then (Inl (VMError (''Command failed (exit '' @ str_int exit_code @ ''): ''
                                   @ strip err)),
                     tr @ [Exec cmd timeout])
               else (Inr out, tr @ [Exec cmd timeout])))"

definition geometry_cmd :: "string \<Rightarrow> string" where
  "geometry_cmd disp = ''DISPLAY='' @ disp @ '' xdotool getdisplaygeometry''"

text \<open>
  The loop of \<open>_get_display\<close> over the candidates: a probe that returns ends the loop
  with its candidate, a probe that raises \<open>VMError\<close> moves on to the next candidate,
  and an exception of another class is not caught by \<open>except VMError\<close>.
\<close>

fun probe :: "remote \<Rightarrow> vm \<Rightarrow> string list \<Rightarrow> event list \<Rightarrow> (exn + string) \<times> event list" where
  "probe w v [] tr = (Inr '':0'', tr)"
| "probe w v (disp # rest) tr =
     (case run w v (geometry_cmd disp) 2 tr of
        (Inr out, tr') \<Rightarrow> (Inr disp, tr')
      | (Inl (VMError m), tr') \<Rightarrow> probe w v rest tr'
      | (Inl (Foreign e), tr') \<Rightarrow> (Inl (Foreign e), tr'))"

definition get_display :: "remote \<Rightarrow> vm \<Rightarrow> event list \<Rightarrow> (exn + string) \<times> event list" where
  "get_display w v tr = probe w v ['':0'', '':1''] tr"

definition mousemove_cmd :: "string \<Rightarrow> int \<Rightarrow> int \<Rightarrow> string" where
  "mousemove_cmd disp x y =
     ''DISPLAY='' @ disp @ '' xdotool mousemove '' @ str_int x @ '' '' @ str_int y"

definition move_mouse :: "remote \<Rightarrow> vm \<Rightarrow> int \<Rightarrow> int \<Rightarrow> event list \<Rightarrow> (exn + unit) \<times> event list" where
  "move_mouse w v x y tr =
     (case get_display w v tr of
        (Inl e, tr') \<Rightarrow> (Inl e, tr')
      | (Inr disp, tr') \<Rightarrow>
          (case run w v (mousemove_cmd disp x y) 10 tr' of
             (Inl e, tr'') \<Rightarrow> (Inl e, tr'')
           | (Inr out, tr'') \<Rightarrow> (Inr (), tr'')))"

text \<open>
  The dictionary lookup \<open>{"left": "1", "right": "3", "middle": "2"}.get(button, "1")\<close>.
\<close>

definition button_code :: "string \<Rightarrow> string" where
  "button_code button =
     (case map_of [(''left'', ''1''), (''right'', ''3''), (''middle'', ''2'')] button of
        Some b \<Rightarrow> b
      | None \<Rightarrow> ''1'')"

definition click_cmd :: "string \<Rightarrow> string \<Rightarrow> string" where
  "click_cmd disp btn = ''DISPLAY='' @ disp @ '' xdotool click '' @ btn"

text \<open>The loop \<open>for _ in range(clicks)\<close>, an exception of a command ending it.\<close>

fun click_loop :: "remote \<Rightarrow> vm \<Rightarrow> string \<Rightarrow> nat \<Rightarrow> event list \<Rightarrow> (exn + unit) \<times> event list" where
  "click_loop w v cmd 0 tr = (Inr (), tr)"
| "click_loop w v cmd (Suc n) tr =
     (case run w v cmd 10 tr of
        (Inl e, tr') \<Rightarrow> (Inl e, tr')
      | (Inr out, tr') \<Rightarrow> click_loop w v cmd n tr')"

definition click :: "remote \<Rightarrow> vm \<Rightarrow> string \<Rightarrow> int \<Rightarrow> event list \<Rightarrow> (exn + unit) \<times> event list" where
  "click w v button clicks tr =
     (case get_display w v tr of
        (Inl e, tr') \<Rightarrow> (Inl e, tr')
      | (Inr disp, tr') \<Rightarrow> click_loop w v (click_cmd disp (button_code button)) (nat clicks) tr')"

definition type_cmd :: "string \<Rightarrow> string \<Rightarrow> string" where
  "type_cmd disp text = ''DISPLAY='' @ disp @ '' xdotool type --clearmodifiers '' @ quote text"

definition type_text :: "remote \<Rightarrow> vm \<Rightarrow> string \<Rightarrow> event list \<Rightarrow> (exn + unit) \<times> event list" where
  "type_text w v text tr =
     (case get_display w v tr of
        (Inl e, tr') \<Rightarrow> (Inl e, tr')
      | (Inr disp, tr') \<Rightarrow>
          (case run w v (type_cmd disp text) 10 tr' of
             (Inl e, tr'') \<Rightarrow> (Inl e, tr'')
           | (Inr out, tr'') \<Rightarrow> (Inr (), tr'')))"

definition key_cmd :: "string \<Rightarrow> string \<Rightarrow> string" where
  "key_cmd disp key = ''DISPLAY='' @ disp @ '' xdotool key '' @ quote key"

definition press_key :: "remote \<Rightarrow> vm \<Rightarrow> string \<Rightarrow> event list \<Rightarrow> (exn + unit) \<times> event list" where
  "press_key w v key tr =
     (case get_display w v tr of
        (Inl e, tr') \<Rightarrow> (Inl e, tr')
      | (Inr disp, tr') \<Rightarrow>
          (case run w v (key_cmd disp key) 10 tr' of
             (Inl e, tr'') \<Rightarrow> (Inl e, tr'')
           | (Inr out, tr'') \<Rightarrow> (Inr (), tr'')))"

section \<open>Screenshots\<close>

text \<open>
  \<open>base64.b64decode\<close> belongs to the Python standard library, not to this module.
  \<open>screenshot\<close> takes the decoder as a parameter \<open>dec\<close>; \<open>b64decode\<close> below follows
  CPython's implementation for a \<open>str\<close> argument with \<open>validate=False\<close>: the text must
  be ASCII (\<open>ValueError\<close> otherwise), characters outside the alphabet are skipped,
  every four alphabet characters give three bytes, a complete padding sequence ends
  the decoding, and input that ends inside a quad raises \<open>binascii.Error\<close>.
\<close>

type_synonym byte = "8 word"

definition table_a2b_base64 :: "char \<Rightarrow> byte option" where
  "table_a2b_base64 c =
     (let n = (of_char c :: nat)
      in if 65 \<le> n \<and> n \<le> 90 then Some (of_nat (n - 65))
         else if 97 \<le> n \<and> n \<le> 122 then Some (of_nat (n - 71))
         else if 48 \<le> n \<and> n \<le> 57 then Some (of_nat (n + 4))
         else if n = 43 then Some 62
         else if n = 47 then Some 63
         else None)"

fun a2b_base64 :: "string \<Rightarrow> nat \<Rightarrow> byte \<Rightarrow> nat \<Rightarrow> byte list \<Rightarrow> exn + byte list" where
  "a2b_base64 [] quad_pos leftchar pads bin =
     (if quad_pos = 0 then Inr bin else Inl (Foreign ''binascii.Error''))"
| "a2b_base64 (c # cs) quad_pos leftchar pads bin =
     (if c = CHR ''='' then
        (if 2 \<le> quad_pos \<and> 4 \<le> quad_pos + (pads + 1) then Inr bin
         else a2b_base64 cs quad_pos leftchar (if 2 \<le> quad_pos then pads + 1 else pads) bin)
      else
        (case table_a2b_base64 c of
           None \<Rightarrow> a2b_base64 cs quad_pos leftchar pads bin
         | Some this_ch \<Rightarrow>
             if quad_pos = 0 then a2b_base64 cs 1 this_ch 0 bin
             else if quad_pos = 1 then
               a2b_base64 cs 2 (and this_ch 0x0f) 0
                 (bin @ [or (push_bit 2 leftchar) (drop_bit 4 this_ch)])
             else if quad_pos = 2 then
               a2b_base64 cs 3 (and this_ch 0x03) 0
                 (bin @ [or (push_bit 4 leftchar) (drop_bit 2 this_ch)])
             else a2b_base64 cs 0 0 0 (bin @ [or (push_bit 6 leftchar) this_ch])))"

definition b64decode :: "string \<Rightarrow> exn + byte list" where
  "b64decode s =
     (if list_all (\<lambda>c. (of_char c :: nat) < 128) s then a2b_base64 s 0 0 0 []
      else Inl (Foreign ''ValueError''))"

text \<open>
  The command of \<open>screenshot\<close>: the f-string with its line breaks and indentation,
  \<open>ts\<close> the clock reading \<open>int(time.time() * 1000)\<close>.
\<close>

definition shot_cmd :: "int \<Rightarrow> string \<Rightarrow> string" where
  "shot_cmd ts disp =
     (let nl = CHR 0x0A # replicate 12 CHR '' '';
          png = ''/tmp/shot_'' @ str_int ts @ ''.png''
      in nl @ ''rm -f '' @ png
         @ nl @ ''DISPLAY='' @ disp @ '' xdotool sync''
         @ nl @ ''sleep 0.1''
         @ nl @ ''DISPLAY='' @ disp @ '' scrot -o '' @ png
         @ nl @ ''base64 '' @ png
         @ nl @ ''rm -f '' @ png
         @ CHR 0x0A # replicate 8 CHR '' '')"

definition screenshot ::
  "(string \<Rightarrow> exn + byte list) \<Rightarrow> remote \<Rightarrow> vm \<Rightarrow> int \<Rightarrow> event list
     \<Rightarrow> (exn + byte list) \<times> event list" where
  "screenshot dec w v ts tr =
     (case get_display w v tr of
        (Inl e, tr') \<Rightarrow> (Inl e, tr')
      | (Inr disp, tr') \<Rightarrow>
          (case run w v (shot_cmd ts disp) 15 tr' of
             (Inl e, tr'') \<Rightarrow> (Inl e, tr'')
           | (Inr b64, tr'') \<Rightarrow> (dec (strip b64), tr'')))"

section \<open>An example controller\<close>

text \<open>
  A controller as the constructor leaves it, the same controller after a \<open>connect\<close>
  that returned, and after a \<open>connect\<close> whose connection attempt raised.
\<close>

definition example_vm :: vm where
  "example_vm = init (\<lambda>p. p) ''dev'' ''192.168.64.7'' ''agent'' ''/home/agent/.ssh/id_ed25519''"

definition example_connected :: vm where
  "example_connected = snd (connect (\<lambda>host user key t. Established) example_vm)"

definition example_half_open :: vm where
  "example_half_open = snd (connect (\<lambda>host user key t. ConnRaised ''socket.timeout'') example_vm)"

text \<open>
  Example environments: a status query that exits with code 1 and prints \<open>started\<close>,
  a local command that times out, a remote side on which every command exits with code
  zero, one whose channel times out, and one on which a client object that was never
  connected raises \<open>AttributeError\<close> (it has no transport).
\<close>

definition cli_started_exit_1 :: local_cli where
  "cli_started_exit_1 argv t = Completed 1 ''started'' []"

definition cli_timeout :: local_cli where
  "cli_timeout argv t = ProcRaised ''TimeoutExpired''"

definition remote_ok :: remote where
  "remote_ok tr c cmd t = Exited 0 [] []"

definition remote_timeout :: remote where
  "remote_timeout tr c cmd t = ExecRaised ''socket.timeout''"

fun remote_needs_transport :: remote where
  "remote_needs_transport tr (SSHClient established) cmd t =
     (if established then Exited 0 [] [] else ExecRaised ''AttributeError'')"

section \<open>Properties of the text helpers\<close>

text \<open>
  \<open>strip\<close> removes whitespace and nothing else: the argument is the result between
  two runs of whitespace, and a non-empty result neither starts nor ends with
  whitespace.
\<close>

lemma strip_decomp:
  "\<exists>l r. s = l @ strip s @ r \<and> list_all is_space l \<and> list_all is_space r"
proof -
  let ?a = "dropWhile is_space s"
  have 1: "s = takeWhile is_space s @ ?a" by simp
  have 2: "rev ?a = takeWhile is_space (rev ?a) @ dropWhile is_space (rev ?a)" by simp
  have "?a = rev (dropWhile is_space (rev ?a)) @ rev (takeWhile is_space (rev ?a))"
    by (metis 2 rev_append rev_rev_ident)
  then have 3: "?a = strip s @ rev (takeWhile is_space (rev ?a))"
    by (simp add: strip_def)
  have "s = takeWhile is_space s @ strip s @ rev (takeWhile is_space (rev ?a))"
    using 1 3 by metis
  moreover have "list_all is_space (takeWhile is_space s)"
    by (simp add: list_all_iff) (meson set_takeWhileD)
  moreover have "list_all is_space (rev (takeWhile is_space (rev ?a)))"
    by (simp add: list_all_iff) (meson set_takeWhileD)
  ultimately show ?thesis by blast
qed

lemma strip_ends:
  "strip s \<noteq> [] \<Longrightarrow> \<not> is_space (hd (strip s)) \<and> \<not> is_space (last (strip s))"
proof -
  assume ne: "strip s \<noteq> []"
  let ?a = "dropWhile is_space s"
  let ?b = "dropWhile is_space (rev ?a)"
  have b: "?b \<noteq> []" using ne by (simp add: strip_def)
  then have hb: "\<not> is_space (hd ?b)" by (rule hd_dropWhile)
  have "last (strip s) = hd ?b" using b by (simp add: strip_def last_rev)
  with hb have L: "\<not> is_space (last (strip s))" by simp
  have a: "?a \<noteq> []"
  proof
    assume "?a = []"
    then have "?b = []" by (simp only: rev.simps dropWhile.simps)
    with b show False by simp
  qed
  then have ha: "\<not> is_space (hd ?a)" by (rule hd_dropWhile)
  have "last (takeWhile is_space (rev ?a) @ ?b) = last ?b"
    using b by (rule last_appendR)
  then have "last ?b = last (rev ?a)" by simp
  also have "\<dots> = hd ?a" using a by (simp add: last_rev)
  finally have "last ?b = hd ?a" .
  moreover have "hd (strip s) = last ?b" using b by (simp add: strip_def hd_rev)
  ultimately show ?thesis using ha L by simp
qed

lemma sublist_behind: "sublist ys (xs @ ys)"
  unfolding sublist_def by (rule exI [of _ xs], rule exI [of _ "[]"]) simp

section \<open>The local hypervisor queries\<close>

text \<open>
  C6. For every VM name, when the \<open>utmctl ip-address\<close> process completes, \<open>get_ip\<close>
  returns its stdout with the surrounding whitespace stripped if the return code is
  zero, and raises \<open>VMError\<close> with the message \<open>Failed to get VM IP: \<close> followed by the
  captured stderr text if the return code is not zero.
\<close>

theorem get_ip_result:
  assumes "sub [''utmctl'', ''ip-address'', vm_name] 10 = Completed returncode out err"
  shows "(returncode = 0 \<longrightarrow> get_ip sub vm_name = Inr (strip out))
         \<and> (returncode \<noteq> 0 \<longrightarrow>
              (\<exists>msg. get_ip sub vm_name = Inl (VMError msg)
                     \<and> msg = ''Failed to get VM IP: '' @ err \<and> sublist err msg))"
  using assms sublist_behind [of err "''Failed to get VM IP: ''"]
  by (simp add: get_ip_def)

theorem get_ip_result_witness:
  "get_ip (\<lambda>argv t. Completed 0 (CHR '' '' # ''192.168.64.7'' @ [CHR 0x0A]) [])
          ''dev'' = Inr ''192.168.64.7''
   \<and> get_ip (\<lambda>argv t. Completed 1 [] ''Virtual machine not found'') ''dev''
       = Inl (VMError ''Failed to get VM IP: Virtual machine not found'')"
proof -
  have s: "strip (CHR '' '' # ''192.168.64.7'' @ [CHR 0x0A]) = ''192.168.64.7''"
    by code_simp
  have a: "get_ip (\<lambda>argv t. Completed 0 (CHR '' '' # ''192.168.64.7'' @ [CHR 0x0A]) [])
             ''dev'' = Inr ''192.168.64.7''"
    using get_ip_result [of "\<lambda>argv t. Completed 0 (CHR '' '' # ''192.168.64.7'' @ [CHR 0x0A]) []"
        "''dev''" 0 "CHR '' '' # ''192.168.64.7'' @ [CHR 0x0A]" "[]"] s
    by simp
  have b: "get_ip (\<lambda>argv t. Completed 1 [] ''Virtual machine not found'') ''dev''
             = Inl (VMError ''Failed to get VM IP: Virtual machine not found'')"
    using get_ip_result [of "\<lambda>argv t. Completed 1 [] ''Virtual machine not found''"
        "''dev''" 1 "[]" "''Virtual machine not found''"]
    by simp
  from a b show ?thesis by simp
qed

text \<open>
  C1, as stated, fails in two places. \<open>is_running\<close> never looks at the return code:
  a status query that exits with code 1 and prints \<open>started\<close> gives true. And it has
  no exception handler: an exception of \<open>subprocess.run\<close> (here the timeout) reaches
  the caller.
\<close>

theorem is_running_counterexample:
  "is_running cli_started_exit_1 ''dev'' = Inr True
   \<and> is_running cli_timeout ''dev'' = Inl (Foreign ''TimeoutExpired'')"
  by code_simp

text \<open>
  C1, amended. For every VM name, when the \<open>utmctl status\<close> process completes, with
  whatever return code, \<open>is_running\<close> returns without raising, and returns true if and
  only if the captured stdout, lower-cased, contains \<open>started\<close>; when invoking the
  process raises, that exception reaches the caller.
\<close>

theorem is_running_result:
  "(sub [''utmctl'', ''status'', vm_name] 10 = Completed returncode out err \<longrightarrow>
      is_running sub vm_name = Inr (sublist ''started'' (lower out)))
   \<and> (sub [''utmctl'', ''status'', vm_name] 10 = ProcRaised e \<longrightarrow>
      is_running sub vm_name = Inl (Foreign e))"
  by (simp add: is_running_def)

theorem is_running_result_witness:
  "is_running (\<lambda>argv t. Completed 0 ''Started'' []) ''dev'' = Inr True
   \<and> is_running (\<lambda>argv t. Completed 3 ''stopped'' ''Error'') ''dev'' = Inr False
   \<and> is_running (\<lambda>argv t. ProcRaised ''FileNotFoundError'') ''dev''
       = Inl (Foreign ''FileNotFoundError'')"
proof -
  have s: "sublist ''started'' (lower ''Started'')" "\<not> sublist ''started'' (lower ''stopped'')"
    by code_simp+
  have a: "is_running (\<lambda>argv t. Completed 0 ''Started'' []) ''dev'' = Inr True"
    using is_running_result [of "\<lambda>argv t. Completed 0 ''Started'' []" "''dev''" 0
        "''Started''" "[]" "[]"] s
    by simp
  have b: "is_running (\<lambda>argv t. Completed 3 ''stopped'' ''Error'') ''dev'' = Inr False"
    using is_running_result [of "\<lambda>argv t. Completed 3 ''stopped'' ''Error''" "''dev''" 3
        "''stopped''" "''Error''" "[]"] s
    by simp
  have c: "is_running (\<lambda>argv t. ProcRaised ''FileNotFoundError'') ''dev''
             = Inl (Foreign ''FileNotFoundError'')"
    using is_running_result [of "\<lambda>argv t. ProcRaised ''FileNotFoundError''" "''dev''" 0
        "[]" "[]" "''FileNotFoundError''"]
    by simp
  from a b c show ?thesis by simp
qed

section \<open>The session\<close>

text \<open>The three outcomes of \<open>_run\<close>, and the session field of the example controllers.\<close>

lemma run_not_connected:
  "ssh v = None \<Longrightarrow> run w v cmd t tr = (Inl (VMError ''Not connected''), tr)"
  by (simp add: run_def)

lemma run_exited:
  "ssh v = Some c \<Longrightarrow> w tr c cmd t = Exited code out err \<Longrightarrow>
   run w v cmd t tr =
     (if code = 0 then Inr out
      else Inl (VMError (''Command failed (exit '' @ str_int code @ ''): '' @ strip err)),
      tr @ [Exec cmd t])"
  by (simp add: run_def)

lemma run_raised:
  "ssh v = Some c \<Longrightarrow> w tr c cmd t = ExecRaised e \<Longrightarrow>
   run w v cmd t tr = (Inl (Foreign e), tr @ [Exec cmd t])"
  by (simp add: run_def)

lemma get_display_not_connected:
  "ssh v = None \<Longrightarrow> get_display w v tr = (Inr '':0'', tr)"
  by (simp add: get_display_def run_not_connected)

lemma ssh_init: "ssh (init expanduser nm host user key) = None"
  by (simp add: init_def)

lemma ssh_disconnect: "ssh (fst (disconnect s)) = None"
  by (cases s) (simp add: disconnect_def split: option.splits)

lemma ex_vm: "ssh example_vm = None" "ssh example_connected = Some (SSHClient True)"
  "ssh example_half_open = Some (SSHClient False)"
  by (simp_all add: example_vm_def example_connected_def example_half_open_def connect_def init_def)

text \<open>
  C8. \<open>disconnect\<close> is idempotent: applied twice it leaves the controller and the trace
  as one application does. It always leaves the session field \<open>None\<close>; without a
  session it changes nothing and closes nothing; with a session \<open>c\<close> it closes \<open>c\<close>
  once and clears the field.
\<close>

theorem disconnect_idempotent:
  "disconnect (disconnect s) = disconnect s
   \<and> ssh (fst (disconnect s)) = None
   \<and> (ssh v = None \<longrightarrow> disconnect (v, tr) = (v, tr))
   \<and> (ssh v = Some c \<longrightarrow> disconnect (v, tr) = (v\<lparr>ssh := None\<rparr>, tr @ [Close c]))"
  by (cases s) (simp add: disconnect_def split: option.splits)

theorem disconnect_idempotent_witness:
  "ssh example_connected = Some (SSHClient True)
   \<and> disconnect (example_connected, []) = (example_vm, [Close (SSHClient True)])
   \<and> disconnect (disconnect (example_connected, [])) = (example_vm, [Close (SSHClient True)])
   \<and> ssh example_vm = None
   \<and> disconnect (example_vm, []) = (example_vm, [])"
proof -
  have e: "example_connected\<lparr>ssh := None\<rparr> = example_vm"
    by (simp add: example_connected_def example_vm_def connect_def init_def)
  have a: "disconnect (example_connected, []) = (example_vm, [Close (SSHClient True)])"
    using disconnect_idempotent [of "(example_connected, [])" example_connected
        "[]" "SSHClient True"] ex_vm(2) e
    by simp
  have b: "disconnect (disconnect (example_connected, [])) = disconnect (example_connected, [])"
    using disconnect_idempotent [of "(example_connected, [])" example_connected
        "[]" "SSHClient True"]
    by simp
  have c: "disconnect (example_vm, []) = (example_vm, [])"
    using disconnect_idempotent [of "(example_vm, [])" example_vm "[]" "SSHClient True"] ex_vm(1)
    by simp
  from a b c ex_vm show ?thesis by simp
qed

text \<open>
  C10. \<open>connect\<close> is not atomic on failure: the fresh client object is assigned to the
  session field before the connection attempt, so when the attempt raises, the
  exception reaches the caller and the field holds the unconnected client; it is not
  \<open>None\<close>, and a controller that had no session before the call is not restored.
\<close>

theorem connect_not_atomic:
  assumes "net (ssh_host v) (ssh_user v) (ssh_key v) 10 = ConnRaised e"
  shows "connect net v = (Inl (Foreign e), v\<lparr>ssh := Some (SSHClient False)\<rparr>)
         \<and> ssh (snd (connect net v)) \<noteq> None
         \<and> (ssh v = None \<longrightarrow> snd (connect net v) \<noteq> v)"
proof -
  have c: "connect net v = (Inl (Foreign e), v\<lparr>ssh := Some (SSHClient False)\<rparr>)"
    using assms by (simp add: connect_def)
  then have s: "ssh (snd (connect net v)) = Some (SSHClient False)"
    by simp
  have "snd (connect net v) \<noteq> v" if "ssh v = None"
  proof
    assume "snd (connect net v) = v"
    with s have "ssh v = Some (SSHClient False)" by simp
    with that show False by simp
  qed
  with c s show ?thesis by simp
qed

theorem connect_not_atomic_witness:
  "ssh example_vm = None
   \<and> connect (\<lambda>host user key t. ConnRaised ''socket.timeout'') example_vm
       = (Inl (Foreign ''socket.timeout''), example_vm\<lparr>ssh := Some (SSHClient False)\<rparr>)
   \<and> ssh (snd (connect (\<lambda>host user key t. ConnRaised ''socket.timeout'') example_vm))
       = Some (SSHClient False)"
  using connect_not_atomic [of "\<lambda>host user key t. ConnRaised ''socket.timeout''" example_vm
      "''socket.timeout''"] ex_vm(1)
  by simp

section \<open>Remote commands\<close>

lemma get_display_all_fail:
  assumes c: "ssh v = Some c"
    and f0: "w tr c (geometry_cmd '':0'') 2 = Exited k0 out0 err0" "k0 \<noteq> 0"
    and f1: "w (tr @ [Exec (geometry_cmd '':0'') 2]) c (geometry_cmd '':1'') 2
               = Exited k1 out1 err1" "k1 \<noteq> 0"
  shows "get_display w v tr
           = (Inr '':0'', tr @ [Exec (geometry_cmd '':0'') 2, Exec (geometry_cmd '':1'') 2])"
  using f0(2) f1(2)
  by (simp add: get_display_def run_exited [where w = w, OF c f0(1)] run_exited [where w = w, OF c f1(1)])

text \<open>
  C7. On a controller with a session: if every remote command exits with code 1 and
  stderr \<open>permission denied\<close>, \<open>move_mouse(10, 20)\<close> raises \<open>VMError\<close> with the message
  \<open>Command failed (exit 1): permission denied\<close>, which contains the exit code and the
  stderr text. In general a command that exits with a non-zero code raises \<open>VMError\<close>
  with the message \<open>Command failed (exit CODE): \<close> followed by the stripped stderr
  text, and a command that exits with code zero returns its decoded stdout.
\<close>

theorem command_failure:
  assumes c: "ssh v = Some c"
  shows "((\<forall>tr' cmd' t'. \<exists>out'. w tr' c cmd' t' = Exited 1 out' ''permission denied'') \<longrightarrow>
            (\<exists>msg. fst (move_mouse w v 10 20 tr) = Inl (VMError msg)
                   \<and> msg = ''Command failed (exit 1): permission denied''
                   \<and> sublist (str_int 1) msg \<and> sublist ''permission denied'' msg))
         \<and> (w tr c cmd t = Exited exit_code out err \<longrightarrow>
              (exit_code = 0 \<longrightarrow> fst (run w v cmd t tr) = Inr out)
              \<and> (exit_code \<noteq> 0 \<longrightarrow>
                   (\<exists>msg. fst (run w v cmd t tr) = Inl (VMError msg)
                          \<and> msg = ''Command failed (exit '' @ str_int exit_code @ ''): ''
                                  @ strip err
                          \<and> sublist (str_int exit_code) msg \<and> sublist (strip err) msg)))"
proof (intro conjI impI)
  assume all: "\<forall>tr' cmd' t'. \<exists>out'. w tr' c cmd' t' = Exited 1 out' ''permission denied''"
  let ?g0 = "Exec (geometry_cmd '':0'') 2" and ?g1 = "Exec (geometry_cmd '':1'') 2"
  let ?mv = "mousemove_cmd '':0'' 10 20"
  from all obtain o0 where p0: "w tr c (geometry_cmd '':0'') 2 = Exited 1 o0 ''permission denied''"
    by blast
  from all obtain o1 where
    p1: "w (tr @ [?g0]) c (geometry_cmd '':1'') 2 = Exited 1 o1 ''permission denied''"
    by blast
  from all obtain o2 where
    p2: "w (tr @ [?g0, ?g1]) c ?mv 10 = Exited 1 o2 ''permission denied''"
    by blast
  have d: "get_display w v tr = (Inr '':0'', tr @ [?g0, ?g1])"
    by (rule get_display_all_fail [where w = w, OF c p0 _ p1]) simp_all
  have s: "strip ''permission denied'' = ''permission denied''" "str_int 1 = ''1''"
    by code_simp+
  have m: "fst (move_mouse w v 10 20 tr)
             = Inl (VMError (''Command failed (exit '' @ ''1'' @ ''): '' @ ''permission denied''))"
    by (simp add: move_mouse_def d run_exited [where w = w, OF c p2] s)
  have "sublist ''1'' ''Command failed (exit 1): permission denied''"
       "sublist ''permission denied'' ''Command failed (exit 1): permission denied''"
    by code_simp+
  with m s show "\<exists>msg. fst (move_mouse w v 10 20 tr) = Inl (VMError msg)
                   \<and> msg = ''Command failed (exit 1): permission denied''
                   \<and> sublist (str_int 1) msg \<and> sublist ''permission denied'' msg"
    by simp
next
  assume "w tr c cmd t = Exited exit_code out err" "exit_code = 0"
  then show "fst (run w v cmd t tr) = Inr out"
    by (simp add: run_exited [where w = w, OF c])
next
  assume x: "w tr c cmd t = Exited exit_code out err" "exit_code \<noteq> 0"
  let ?pre = "''Command failed (exit ''"
  have 1: "sublist (strip err) ((?pre @ str_int exit_code @ ''): '') @ strip err)"
    by (rule sublist_behind)
  have 2: "sublist (str_int exit_code) (?pre @ str_int exit_code @ (''): '' @ strip err))"
    unfolding sublist_def by blast
  from x 1 2 show "\<exists>msg. fst (run w v cmd t tr) = Inl (VMError msg)
                          \<and> msg = ''Command failed (exit '' @ str_int exit_code @ ''): ''
                                  @ strip err
                          \<and> sublist (str_int exit_code) msg \<and> sublist (strip err) msg"
    by (simp add: run_exited [where w = w, OF c])
qed



theorem command_failure_witness:
  "ssh example_connected = Some (SSHClient True)
   \<and> fst (move_mouse (\<lambda>tr c cmd t. Exited 1 [] ''permission denied'') example_connected 10 20 [])
       = Inl (VMError ''Command failed (exit 1): permission denied'')
   \<and> fst (run (\<lambda>tr c cmd t. Exited 0 ''1920 1080'' []) example_connected
             (geometry_cmd '':0'') 2 []) = Inr ''1920 1080''
   \<and> fst (run (\<lambda>tr c cmd t. Exited 127 [] (''sh: 1: xdotool: not found'' @ [CHR 0x0A]))
             example_connected (geometry_cmd '':0'') 2 [])
       = Inl (VMError ''Command failed (exit 127): sh: 1: xdotool: not found'')"
proof -
  note c = ex_vm(2)
  have a: "fst (move_mouse (\<lambda>tr c cmd t. Exited 1 [] ''permission denied'')
                  example_connected 10 20 [])
             = Inl (VMError ''Command failed (exit 1): permission denied'')"
    using command_failure [where w = "\<lambda>tr c cmd t. Exited 1 [] ''permission denied''"
        and tr = "[]", OF c]
    by simp
  have b: "fst (run (\<lambda>tr c cmd t. Exited 0 ''1920 1080'' []) example_connected
                  (geometry_cmd '':0'') 2 []) = Inr ''1920 1080''"
    using command_failure [where w = "\<lambda>tr c cmd t. Exited 0 ''1920 1080'' []"
        and tr = "[]" and cmd = "geometry_cmd '':0''" and t = 2 and exit_code = 0
        and out = "''1920 1080''" and err = "[]", OF c]
    by simp
  have s: "str_int 127 = ''127''"
    "strip (''sh: 1: xdotool: not found'' @ [CHR 0x0A]) = ''sh: 1: xdotool: not found''"
    by code_simp+
  have d: "fst (run (\<lambda>tr c cmd t. Exited 127 [] (''sh: 1: xdotool: not found'' @ [CHR 0x0A]))
                  example_connected (geometry_cmd '':0'') 2 [])
             = Inl (VMError ''Command failed (exit 127): sh: 1: xdotool: not found'')"
    using command_failure [where w = "\<lambda>tr c cmd t. Exited 127 []
          (''sh: 1: xdotool: not found'' @ [CHR 0x0A])"
        and tr = "[]" and cmd = "geometry_cmd '':0''" and t = 2 and exit_code = 127
        and out = "[]" and err = "''sh: 1: xdotool: not found'' @ [CHR 0x0A]", OF c] s
    by simp
  from a b d c show ?thesis by simp
qed

section \<open>Display detection\<close>

text \<open>
  C4, as stated, fails: \<open>_get_display\<close> catches \<open>VMError\<close> only. A probe that raises
  an exception of another class (here the channel timing out on the first probe)
  ends \<open>_get_display\<close> with that exception.
\<close>

theorem get_display_counterexample:
  "ssh example_connected = Some (SSHClient True)
   \<and> get_display remote_timeout example_connected []
       = (Inl (Foreign ''socket.timeout''), [Exec (geometry_cmd '':0'') 2])"
proof -
  have "run remote_timeout example_connected (geometry_cmd '':0'') 2 []
          = (Inl (Foreign ''socket.timeout''), [] @ [Exec (geometry_cmd '':0'') 2])"
    by (rule run_raised [OF ex_vm(2)]) (simp add: remote_timeout_def)
  then show ?thesis by (simp add: ex_vm get_display_def)
qed

text \<open>
  C4, amended. \<open>_get_display\<close> returns the first identifier of \<open>[":0", ":1"]\<close> whose
  geometry query succeeds (exits with code zero), the queries before it having raised
  \<open>VMError\<close> (a non-zero exit code); if every query raises \<open>VMError\<close>, because both exit
  with a non-zero code or because there is no session, it returns the default \<open>":0"\<close>.
  It raises only when a probe raises an exception that is not a \<open>VMError\<close>, and then
  with that exception.
\<close>

theorem get_display_result:
  "(ssh v = None \<longrightarrow> get_display w v tr = (Inr '':0'', tr))
   \<and> (ssh v = Some c \<and> w tr c (geometry_cmd '':0'') 2 = Exited 0 out_a err_a \<longrightarrow>
        get_display w v tr = (Inr '':0'', tr @ [Exec (geometry_cmd '':0'') 2]))
   \<and> (ssh v = Some c \<and> w tr c (geometry_cmd '':0'') 2 = Exited k_a out_a err_a \<and> k_a \<noteq> 0
        \<and> w (tr @ [Exec (geometry_cmd '':0'') 2]) c (geometry_cmd '':1'') 2
            = Exited 0 out_b err_b \<longrightarrow>
        get_display w v tr
          = (Inr '':1'', tr @ [Exec (geometry_cmd '':0'') 2, Exec (geometry_cmd '':1'') 2]))
   \<and> (ssh v = Some c \<and> w tr c (geometry_cmd '':0'') 2 = Exited k_a out_a err_a \<and> k_a \<noteq> 0
        \<and> w (tr @ [Exec (geometry_cmd '':0'') 2]) c (geometry_cmd '':1'') 2
            = Exited k_b out_b err_b \<and> k_b \<noteq> 0 \<longrightarrow>
        get_display w v tr
          = (Inr '':0'', tr @ [Exec (geometry_cmd '':0'') 2, Exec (geometry_cmd '':1'') 2]))
   \<and> (ssh v = Some c \<and> w tr c (geometry_cmd '':0'') 2 = ExecRaised e \<longrightarrow>
        get_display w v tr = (Inl (Foreign e), tr @ [Exec (geometry_cmd '':0'') 2]))
   \<and> (ssh v = Some c \<and> w tr c (geometry_cmd '':0'') 2 = Exited k_a out_a err_a \<and> k_a \<noteq> 0
        \<and> w (tr @ [Exec (geometry_cmd '':0'') 2]) c (geometry_cmd '':1'') 2
            = ExecRaised e \<longrightarrow>
        get_display w v tr
          = (Inl (Foreign e),
             tr @ [Exec (geometry_cmd '':0'') 2, Exec (geometry_cmd '':1'') 2]))"
proof (intro conjI impI; (elim conjE)?)
  assume "ssh v = None"
  then show "get_display w v tr = (Inr '':0'', tr)"
    by (rule get_display_not_connected)
next
  assume c: "ssh v = Some c" and "w tr c (geometry_cmd '':0'') 2 = Exited 0 out_a err_a"
  then show "get_display w v tr = (Inr '':0'', tr @ [Exec (geometry_cmd '':0'') 2])"
    by (simp add: get_display_def run_exited [where w = w, OF c])
next
  assume c: "ssh v = Some c"
    and "w tr c (geometry_cmd '':0'') 2 = Exited k_a out_a err_a" "k_a \<noteq> 0"
    "w (tr @ [Exec (geometry_cmd '':0'') 2]) c (geometry_cmd '':1'') 2 = Exited 0 out_b err_b"
  then show "get_display w v tr
      = (Inr '':1'', tr @ [Exec (geometry_cmd '':0'') 2, Exec (geometry_cmd '':1'') 2])"
    by (simp add: get_display_def run_exited [where w = w, OF c])
next
  assume c: "ssh v = Some c"
    and "w tr c (geometry_cmd '':0'') 2 = Exited k_a out_a err_a" "k_a \<noteq> 0"
    "w (tr @ [Exec (geometry_cmd '':0'') 2]) c (geometry_cmd '':1'') 2
       = Exited k_b out_b err_b" "k_b \<noteq> 0"
  then show "get_display w v tr
      = (Inr '':0'', tr @ [Exec (geometry_cmd '':0'') 2, Exec (geometry_cmd '':1'') 2])"
    by (simp add: get_display_def run_exited [where w = w, OF c])
next
  assume c: "ssh v = Some c" and "w tr c (geometry_cmd '':0'') 2 = ExecRaised e"
  then show "get_display w v tr = (Inl (Foreign e), tr @ [Exec (geometry_cmd '':0'') 2])"
    by (simp add: get_display_def run_raised [where w = w, OF c])
next
  assume c: "ssh v = Some c"
    and "w tr c (geometry_cmd '':0'') 2 = Exited k_a out_a err_a" "k_a \<noteq> 0"
    "w (tr @ [Exec (geometry_cmd '':0'') 2]) c (geometry_cmd '':1'') 2 = ExecRaised e"
  then show "get_display w v tr
      = (Inl (Foreign e), tr @ [Exec (geometry_cmd '':0'') 2, Exec (geometry_cmd '':1'') 2])"
    by (simp add: get_display_def run_exited [where w = w, OF c]
        run_raised [where w = w, OF c])
qed

theorem get_display_result_witness:
  "ssh example_vm = None
   \<and> get_display (\<lambda>tr c cmd t. Exited 0 [] []) example_vm [] = (Inr '':0'', [])
   \<and> ssh example_connected = Some (SSHClient True)
   \<and> get_display (\<lambda>tr c cmd t. Exited 0 [] []) example_connected []
       = (Inr '':0'', [Exec (geometry_cmd '':0'') 2])
   \<and> get_display (\<lambda>tr c cmd t. if tr = [] then Exited 1 [] [] else Exited 0 [] [])
         example_connected []
       = (Inr '':1'', [Exec (geometry_cmd '':0'') 2, Exec (geometry_cmd '':1'') 2])
   \<and> get_display (\<lambda>tr c cmd t. Exited 1 [] []) example_connected []
       = (Inr '':0'', [Exec (geometry_cmd '':0'') 2, Exec (geometry_cmd '':1'') 2])
   \<and> get_display (\<lambda>tr c cmd t. ExecRaised ''SSHException'') example_connected []
       = (Inl (Foreign ''SSHException''), [Exec (geometry_cmd '':0'') 2])
   \<and> get_display (\<lambda>tr c cmd t. if tr = [] then Exited 1 [] [] else ExecRaised ''SSHException'')
         example_connected []
       = (Inl (Foreign ''SSHException''),
          [Exec (geometry_cmd '':0'') 2, Exec (geometry_cmd '':1'') 2])"
proof -
  note n = ex_vm(1) and c = ex_vm(2)
  have 0: "get_display (\<lambda>tr c cmd t. Exited 0 [] []) example_vm [] = (Inr '':0'', [])"
    using get_display_result [where w = "\<lambda>tr c cmd t. Exited 0 [] []" and tr = "[]"
        and v = example_vm] n
    by simp
  have 1: "get_display (\<lambda>tr c cmd t. Exited 0 [] []) example_connected []
             = (Inr '':0'', [Exec (geometry_cmd '':0'') 2])"
    using get_display_result [where w = "\<lambda>tr c cmd t. Exited 0 [] []" and tr = "[]"
        and v = example_connected and c = "SSHClient True" and out_a = "[]" and err_a = "[]"] c
    by simp
  have 2: "get_display (\<lambda>tr c cmd t. if tr = [] then Exited 1 [] [] else Exited 0 [] [])
             example_connected []
             = (Inr '':1'', [Exec (geometry_cmd '':0'') 2, Exec (geometry_cmd '':1'') 2])"
    using get_display_result [where w = "\<lambda>tr c cmd t. if tr = [] then Exited 1 [] []
          else Exited 0 [] []" and tr = "[]" and v = example_connected
        and c = "SSHClient True" and k_a = 1 and out_a = "[]" and err_a = "[]"
        and out_b = "[]" and err_b = "[]"] c
    by simp
  have 3: "get_display (\<lambda>tr c cmd t. Exited 1 [] []) example_connected []
             = (Inr '':0'', [Exec (geometry_cmd '':0'') 2, Exec (geometry_cmd '':1'') 2])"
    using get_display_result [where w = "\<lambda>tr c cmd t. Exited 1 [] []" and tr = "[]"
        and v = example_connected and c = "SSHClient True"
        and k_a = 1 and out_a = "[]" and err_a = "[]" and k_b = 1 and out_b = "[]"
        and err_b = "[]"] c
    by simp
  have 4: "get_display (\<lambda>tr c cmd t. ExecRaised ''SSHException'') example_connected []
             = (Inl (Foreign ''SSHException''), [Exec (geometry_cmd '':0'') 2])"
    using get_display_result [where w = "\<lambda>tr c cmd t. ExecRaised ''SSHException''"
        and tr = "[]" and v = example_connected and c = "SSHClient True"
        and e = "''SSHException''"] c
    by simp
  have 5: "get_display (\<lambda>tr c cmd t. if tr = [] then Exited 1 [] []
               else ExecRaised ''SSHException'') example_connected []
             = (Inl (Foreign ''SSHException''),
                [Exec (geometry_cmd '':0'') 2, Exec (geometry_cmd '':1'') 2])"
    using get_display_result [where w = "\<lambda>tr c cmd t. if tr = [] then Exited 1 [] []
          else ExecRaised ''SSHException''" and tr = "[]" and v = example_connected
        and c = "SSHClient True" and k_a = 1 and out_a = "[]"
        and err_a = "[]" and e = "''SSHException''"] c
    by simp
  from 0 1 2 3 4 5 n c show ?thesis by simp
qed

text \<open>
  C9. Without a session, each geometry probe raises \<open>VMError("Not connected")\<close>,
  \<open>_get_display\<close> catches it like any failed probe and returns the default \<open>":0"\<close>
  without executing anything, and the error reaches the caller from the action
  command that follows, as for \<open>move_mouse\<close>.
\<close>

theorem get_display_swallows_not_connected:
  assumes "ssh v = None"
  shows "run w v (geometry_cmd '':0'') 2 tr = (Inl (VMError ''Not connected''), tr)
         \<and> run w v (geometry_cmd '':1'') 2 tr = (Inl (VMError ''Not connected''), tr)
         \<and> get_display w v tr = (Inr '':0'', tr)
         \<and> run w v (mousemove_cmd '':0'' x y) 10 tr = (Inl (VMError ''Not connected''), tr)
         \<and> move_mouse w v x y tr = (Inl (VMError ''Not connected''), tr)"
  using assms
  by (simp add: move_mouse_def get_display_not_connected run_not_connected)

theorem get_display_swallows_not_connected_witness:
  "ssh example_vm = None
   \<and> get_display (\<lambda>tr c cmd t. Exited 0 [] []) example_vm [] = (Inr '':0'', [])
   \<and> move_mouse (\<lambda>tr c cmd t. Exited 0 [] []) example_vm 10 20 []
       = (Inl (VMError ''Not connected''), [])"
  using get_display_swallows_not_connected [of example_vm "\<lambda>tr c cmd t. Exited 0 [] []"
      "[]" 10 20] ex_vm(1)
  by simp

section \<open>Actions without a session\<close>

lemma click_loop_not_connected:
  "ssh v = None \<Longrightarrow>
   click_loop w v cmd n tr = (if n = 0 then Inr () else Inl (VMError ''Not connected''), tr)"
  by (cases n) (simp_all add: run_not_connected)

text \<open>
  C2, as stated, fails in two places. On a controller that was never connected,
  \<open>click\<close> with \<open>clicks = 0\<close> runs no command, so nothing tests the session and the
  call returns normally. And after a \<open>connect\<close> whose connection attempt raised, the
  session field holds the unconnected client object, the test \<open>if not self.ssh\<close> passes,
  and the action ends with whatever \<open>exec_command\<close> raises on that client (here an
  \<open>AttributeError\<close>, raised by the first display probe) and not with \<open>Not connected\<close>.
\<close>

theorem not_connected_counterexample:
  "ssh example_vm = None
   \<and> click remote_ok example_vm ''left'' 0 [] = (Inr (), [])
   \<and> ssh example_half_open = Some (SSHClient False)
   \<and> move_mouse remote_needs_transport example_half_open 10 20 []
       = (Inl (Foreign ''AttributeError''), [Exec (geometry_cmd '':0'') 2])"
proof -
  have a: "click remote_ok example_vm ''left'' 0 [] = (Inr (), [])"
    by (simp add: click_def get_display_not_connected ex_vm(1))
  have r: "run remote_needs_transport example_half_open (geometry_cmd '':0'') 2 []
             = (Inl (Foreign ''AttributeError''), [] @ [Exec (geometry_cmd '':0'') 2])"
    by (rule run_raised [OF ex_vm(3)]) simp
  have b: "move_mouse remote_needs_transport example_half_open 10 20 []
             = (Inl (Foreign ''AttributeError''), [Exec (geometry_cmd '':0'') 2])"
    by (simp add: move_mouse_def get_display_def r)
  from a b ex_vm show ?thesis by simp
qed

text \<open>
  C2, amended. On a controller whose session field is \<open>None\<close> (as the constructor
  leaves it, see \<open>ssh_init\<close>, and as \<open>disconnect\<close> leaves it, see \<open>ssh_disconnect\<close>),
  \<open>screenshot\<close>, \<open>move_mouse\<close>, \<open>type_text\<close> and \<open>press_key\<close> raise
  \<open>VMError("Not connected")\<close> without executing a remote command, and so does \<open>click\<close>
  when \<open>clicks\<close> is positive; \<open>click\<close> with \<open>clicks\<close> zero or negative returns normally
  without executing a remote command.
\<close>

theorem actions_not_connected:
  assumes n: "ssh v = None"
  shows "screenshot dec w v ts tr = (Inl (VMError ''Not connected''), tr)
         \<and> move_mouse w v x y tr = (Inl (VMError ''Not connected''), tr)
         \<and> type_text w v input tr = (Inl (VMError ''Not connected''), tr)
         \<and> press_key w v key tr = (Inl (VMError ''Not connected''), tr)
         \<and> (0 < clicks \<longrightarrow> click w v button clicks tr = (Inl (VMError ''Not connected''), tr))
         \<and> (clicks \<le> 0 \<longrightarrow> click w v button clicks tr = (Inr (), tr))"
  by (simp add: screenshot_def move_mouse_def type_text_def press_key_def click_def
      get_display_not_connected [OF n] run_not_connected [OF n] click_loop_not_connected [OF n])

theorem actions_not_connected_witness:
  "ssh example_vm = None
   \<and> screenshot b64decode (\<lambda>tr c cmd t. Exited 0 [] []) example_vm 1700000000123 []
       = (Inl (VMError ''Not connected''), [])
   \<and> move_mouse (\<lambda>tr c cmd t. Exited 0 [] []) example_vm 10 20 []
       = (Inl (VMError ''Not connected''), [])
   \<and> type_text (\<lambda>tr c cmd t. Exited 0 [] []) example_vm ''hello'' []
       = (Inl (VMError ''Not connected''), [])
   \<and> press_key (\<lambda>tr c cmd t. Exited 0 [] []) example_vm ''ctrl+a'' []
       = (Inl (VMError ''Not connected''), [])
   \<and> click (\<lambda>tr c cmd t. Exited 0 [] []) example_vm ''left'' 2 []
       = (Inl (VMError ''Not connected''), [])
   \<and> click (\<lambda>tr c cmd t. Exited 0 [] []) example_vm ''left'' 0 [] = (Inr (), [])
   \<and> ssh (fst (disconnect (example_connected, []))) = None
   \<and> move_mouse (\<lambda>tr c cmd t. Exited 0 [] []) (fst (disconnect (example_connected, []))) 10 20
         [Close (SSHClient True)]
       = (Inl (VMError ''Not connected''), [Close (SSHClient True)])"
proof -
  have d: "ssh (fst (disconnect (example_connected, []))) = None"
    by (rule ssh_disconnect)
  have a: "screenshot b64decode (\<lambda>tr c cmd t. Exited 0 [] []) example_vm 1700000000123 []
             = (Inl (VMError ''Not connected''), [])
           \<and> move_mouse (\<lambda>tr c cmd t. Exited 0 [] []) example_vm 10 20 []
             = (Inl (VMError ''Not connected''), [])
           \<and> type_text (\<lambda>tr c cmd t. Exited 0 [] []) example_vm ''hello'' []
             = (Inl (VMError ''Not connected''), [])
           \<and> press_key (\<lambda>tr c cmd t. Exited 0 [] []) example_vm ''ctrl+a'' []
             = (Inl (VMError ''Not connected''), [])
           \<and> click (\<lambda>tr c cmd t. Exited 0 [] []) example_vm ''left'' 2 []
             = (Inl (VMError ''Not connected''), [])"
    using actions_not_connected [OF ex_vm(1), where dec = b64decode
        and w = "\<lambda>tr c cmd t. Exited 0 [] []" and ts = 1700000000123 and tr = "[]"
        and x = 10 and y = 20 and input = "''hello''" and key = "''ctrl+a''" and clicks = 2
        and button = "''left''"]
    by simp
  have b: "click (\<lambda>tr c cmd t. Exited 0 [] []) example_vm ''left'' 0 [] = (Inr (), [])"
    using actions_not_connected [OF ex_vm(1), where w = "\<lambda>tr c cmd t. Exited 0 [] []"
        and tr = "[]" and clicks = 0 and button = "''left''"]
    by simp
  have c: "move_mouse (\<lambda>tr c cmd t. Exited 0 [] []) (fst (disconnect (example_connected, [])))
             10 20 [Close (SSHClient True)]
             = (Inl (VMError ''Not connected''), [Close (SSHClient True)])"
    using actions_not_connected [OF d, where w = "\<lambda>tr c cmd t. Exited 0 [] []"
        and tr = "[Close (SSHClient True)]" and x = 10 and y = 20]
    by simp
  from a b c d ex_vm(1) show ?thesis by simp
qed

section \<open>Clicks\<close>

text \<open>
  The loop of \<open>click\<close>: when every execution of the command succeeds it appends
  exactly \<open>n\<close> executions to the trace; in any case it appends \<open>k \<le> n\<close> executions of
  that one command and nothing else, and \<open>k = n\<close> when it returns normally.
\<close>

lemma click_loop_succeeds:
  assumes c: "ssh v = Some c"
    and ok: "\<forall>tr'. \<exists>out err. w tr' c cmd 10 = Exited 0 out err"
  shows "click_loop w v cmd n tr = (Inr (), tr @ replicate n (Exec cmd 10))"
proof (induction n arbitrary: tr)
  case 0
  show ?case by simp
next
  case (Suc n)
  from ok obtain out err where o: "w tr c cmd 10 = Exited 0 out err" by blast
  have r: "run w v cmd 10 tr = (Inr out, tr @ [Exec cmd 10])"
    by (simp add: run_exited [where w = w, OF c o])
  have "click_loop w v cmd (Suc n) tr = click_loop w v cmd n (tr @ [Exec cmd 10])"
    by (simp add: r)
  also have "\<dots> = (Inr (), (tr @ [Exec cmd 10]) @ replicate n (Exec cmd 10))"
    by (rule Suc.IH)
  also have "(tr @ [Exec cmd 10]) @ replicate n (Exec cmd 10)
               = tr @ replicate (Suc n) (Exec cmd 10)"
    by simp
  finally show ?case .
qed

lemma click_loop_trace:
  "\<exists>k\<le>n. snd (click_loop w v cmd n tr) = tr @ replicate k (Exec cmd 10)
          \<and> (fst (click_loop w v cmd n tr) = Inr () \<longrightarrow> k = n)"
proof (induction n arbitrary: tr)
  case 0
  show ?case by simp
next
  case (Suc n)
  show ?case
  proof (cases "run w v cmd 10 tr")
    case (Pair r tr')
    show ?thesis
    proof (cases r)
      case (Inl e)
      have "tr' = tr \<or> tr' = tr @ [Exec cmd 10]"
        using Pair by (auto simp add: run_def split: option.splits exec_outcome.splits if_splits)
      then show ?thesis
      proof
        assume "tr' = tr"
        with Pair Inl show ?thesis by (intro exI [of _ 0]) simp
      next
        assume "tr' = tr @ [Exec cmd 10]"
        with Pair Inl show ?thesis by (intro exI [of _ 1]) simp
      qed
    next
      case (Inr out)
      have t: "tr' = tr @ [Exec cmd 10]"
        using Pair Inr by (auto simp add: run_def split: option.splits exec_outcome.splits if_splits)
      from Suc.IH [of tr'] obtain k where
        k: "k \<le> n" "snd (click_loop w v cmd n tr') = tr' @ replicate k (Exec cmd 10)"
           "fst (click_loop w v cmd n tr') = Inr () \<longrightarrow> k = n"
        by blast
      have e: "click_loop w v cmd (Suc n) tr = click_loop w v cmd n tr'"
        using Pair Inr by simp
      have "tr' @ replicate k (Exec cmd 10) = tr @ replicate (Suc k) (Exec cmd 10)"
        using t by simp
      with k e show ?thesis by (intro exI [of _ "Suc k"]) simp
    qed
  qed
qed

lemma button_code_cases:
  "button_code button =
     (if button = ''left'' then ''1'' else if button = ''right'' then ''3''
      else if button = ''middle'' then ''2'' else ''1'')"
  by (simp add: button_code_def)

lemma get_display_first:
  assumes "ssh v = Some c" and "w tr c (geometry_cmd '':0'') 2 = Exited 0 out err"
  shows "get_display w v tr = (Inr '':0'', tr @ [Exec (geometry_cmd '':0'') 2])"
  by (simp add: get_display_def run_exited [where w = w, OF assms])

text \<open>
  C3. On a controller with a session, for every string \<open>button\<close> and every
  non-negative integer \<open>clicks\<close>: when display detection has returned \<open>disp\<close> and the
  click command succeeds whenever it is executed, \<open>click(button, clicks)\<close> returns
  normally and has executed, after the display probes, exactly \<open>clicks\<close> commands, one
  after the other, each of them \<open>DISPLAY=disp xdotool click b\<close> with \<open>b\<close> the code
  \<open>1\<close> for \<open>left\<close>, \<open>3\<close> for \<open>right\<close>, \<open>2\<close> for \<open>middle\<close> and \<open>1\<close> for any other
  string.
\<close>

theorem click_issues_clicks:
  assumes c: "ssh v = Some c"
    and d: "get_display w v tr = (Inr disp, tr1)"
    and n: "0 \<le> clicks"
    and ok: "\<forall>tr'. \<exists>out err.
               w tr' c (''DISPLAY='' @ disp @ '' xdotool click '' @ button_code button) 10
                 = Exited 0 out err"
  shows "\<exists>evs. click w v button clicks tr = (Inr (), tr1 @ evs)
               \<and> int (length evs) = clicks
               \<and> evs = replicate (nat clicks)
                          (Exec (''DISPLAY='' @ disp @ '' xdotool click ''
                                 @ (if button = ''left'' then ''1''
                                    else if button = ''right'' then ''3''
                                    else if button = ''middle'' then ''2'' else ''1'')) 10)"
proof -
  let ?cmd = "click_cmd disp (button_code button)"
  have ok': "\<forall>tr'. \<exists>out err. w tr' c ?cmd 10 = Exited 0 out err"
    using ok by (simp add: click_cmd_def)
  have "click w v button clicks tr = click_loop w v ?cmd (nat clicks) tr1"
    by (simp add: click_def d)
  also have "\<dots> = (Inr (), tr1 @ replicate (nat clicks) (Exec ?cmd 10))"
    by (rule click_loop_succeeds [where w = w, OF c ok'])
  finally have "click w v button clicks tr
                  = (Inr (), tr1 @ replicate (nat clicks) (Exec ?cmd 10))" .
  moreover have "?cmd = ''DISPLAY='' @ disp @ '' xdotool click ''
                        @ (if button = ''left'' then ''1''
                           else if button = ''right'' then ''3''
                           else if button = ''middle'' then ''2'' else ''1'')"
    by (simp only: click_cmd_def button_code_cases)
  ultimately show ?thesis using n by simp
qed

theorem click_issues_clicks_witness:
  "ssh example_connected = Some (SSHClient True)
   \<and> click (\<lambda>tr c cmd t. Exited 0 [] []) example_connected ''right'' 3 []
       = (Inr (), [Exec ''DISPLAY=:0 xdotool getdisplaygeometry'' 2,
                   Exec ''DISPLAY=:0 xdotool click 3'' 10,
                   Exec ''DISPLAY=:0 xdotool click 3'' 10,
                   Exec ''DISPLAY=:0 xdotool click 3'' 10])
   \<and> click (\<lambda>tr c cmd t. Exited 0 [] []) example_connected ''thumb'' 1 []
       = (Inr (), [Exec ''DISPLAY=:0 xdotool getdisplaygeometry'' 2,
                   Exec ''DISPLAY=:0 xdotool click 1'' 10])
   \<and> click (\<lambda>tr c cmd t. Exited 0 [] []) example_connected ''middle'' 0 []
       = (Inr (), [Exec ''DISPLAY=:0 xdotool getdisplaygeometry'' 2])"
proof -
  let ?w = "\<lambda>(tr :: event list) (c :: ssh_client) (cmd :: string) (t :: nat). Exited 0 [] []"
  note c = ex_vm(2)
  have d: "get_display ?w example_connected [] = (Inr '':0'', [Exec (geometry_cmd '':0'') 2])"
    using get_display_first [where w = ?w and tr = "[]", OF c] by simp
  have g: "geometry_cmd '':0'' = ''DISPLAY=:0 xdotool getdisplaygeometry''"
    by (simp add: geometry_cmd_def)
  have 1: "click ?w example_connected ''right'' 3 []
       = (Inr (), [Exec ''DISPLAY=:0 xdotool getdisplaygeometry'' 2,
                   Exec ''DISPLAY=:0 xdotool click 3'' 10,
                   Exec ''DISPLAY=:0 xdotool click 3'' 10,
                   Exec ''DISPLAY=:0 xdotool click 3'' 10])"
    using click_issues_clicks [where w = ?w and button = "''right''" and clicks = 3, OF c d]
    by (simp add: g numeral_3_eq_3)
  have 2: "click ?w example_connected ''thumb'' 1 []
       = (Inr (), [Exec ''DISPLAY=:0 xdotool getdisplaygeometry'' 2,
                   Exec ''DISPLAY=:0 xdotool click 1'' 10])"
    using click_issues_clicks [where w = ?w and button = "''thumb''" and clicks = 1, OF c d]
    by (simp add: g)
  have 3: "click ?w example_connected ''middle'' 0 []
       = (Inr (), [Exec ''DISPLAY=:0 xdotool getdisplaygeometry'' 2])"
    using click_issues_clicks [where w = ?w and button = "''middle''" and clicks = 0, OF c d]
    by (simp add: g)
  from 1 2 3 c show ?thesis by simp
qed

section \<open>The screenshot payload\<close>

text \<open>
  C5. On a controller with a session, when display detection has returned \<open>disp\<close>
  and the capture command exits with code zero and the text \<open>payload\<close> on stdout,
  \<open>screenshot\<close> returns what the base64 decoder gives for \<open>payload\<close> stripped of
  surrounding whitespace: if the decoder returns the bytes \<open>bytes\<close>, \<open>screenshot\<close>
  returns exactly \<open>bytes\<close>. The witness decodes a fixed payload, the eight bytes of
  the PNG signature, with \<open>b64decode\<close>.
\<close>

theorem screenshot_decodes_payload:
  assumes c: "ssh v = Some c"
    and d: "get_display w v tr = (Inr disp, tr1)"
    and p: "w tr1 c (shot_cmd ts disp) 15 = Exited 0 payload err"
  shows "screenshot dec w v ts tr = (dec (strip payload), tr1 @ [Exec (shot_cmd ts disp) 15])
         \<and> (dec (strip payload) = Inr bytes \<longrightarrow> fst (screenshot dec w v ts tr) = Inr bytes)"
  by (simp add: screenshot_def d run_exited [where w = w, OF c p])

theorem screenshot_decodes_payload_witness:
  "ssh example_connected = Some (SSHClient True)
   \<and> strip (''iVBORw0KGgo='' @ [CHR 0x0A]) = ''iVBORw0KGgo=''
   \<and> b64decode ''iVBORw0KGgo='' = Inr [0x89, 0x50, 0x4E, 0x47, 0x0D, 0x0A, 0x1A, 0x0A]
   \<and> fst (screenshot b64decode
            (\<lambda>tr c cmd t. if t = 15 then Exited 0 (''iVBORw0KGgo='' @ [CHR 0x0A]) []
                           else Exited 0 [] [])
            example_connected 1700000000123 [])
       = Inr [0x89, 0x50, 0x4E, 0x47, 0x0D, 0x0A, 0x1A, 0x0A]"
proof -
  let ?w = "\<lambda>(tr :: event list) (c :: ssh_client) (cmd :: string) (t :: nat).
              if t = 15 then Exited 0 (''iVBORw0KGgo='' @ [CHR 0x0A]) [] else Exited 0 [] []"
  note c = ex_vm(2)
  have d: "get_display ?w example_connected [] = (Inr '':0'', [Exec (geometry_cmd '':0'') 2])"
    using get_display_first [where w = ?w and tr = "[]", OF c] by simp
  have s: "strip (''iVBORw0KGgo='' @ [CHR 0x0A]) = ''iVBORw0KGgo=''"
    by code_simp
  have b: "b64decode ''iVBORw0KGgo='' = Inr [0x89, 0x50, 0x4E, 0x47, 0x0D, 0x0A, 0x1A, 0x0A]"
    by code_simp
  have "fst (screenshot b64decode ?w example_connected 1700000000123 [])
          = Inr [0x89, 0x50, 0x4E, 0x47, 0x0D, 0x0A, 0x1A, 0x0A]"
    using screenshot_decodes_payload [where w = ?w and dec = b64decode
        and ts = 1700000000123 and payload = "''iVBORw0KGgo='' @ [CHR 0x0A]" and err = "[]"
        and bytes = "[0x89, 0x50, 0x4E, 0x47, 0x0D, 0x0A, 0x1A, 0x0A]", OF c d] s b
    by simp
  with s b c show ?thesis by simp
qed

end
